theory Spec2Isabelle
  imports Main
begin

section \<open>Data model (src/main.go, lines 22-46)\<close>

text \<open>
  Go strings are byte sequences; they are modelled as \<^typ>\<open>string\<close>. The struct
  \<open>SlackMessageEvent\<close> has a field \<open>Type\<close> like \<open>SlackEventPayload\<close>; record fields
  are global names in HOL, so the event's one is called \<open>EventType\<close>.
\<close>

record APIRequestBody =
  THREAD_ID :: string
  CHANNEL_ID :: string
  USER_ID :: string
  QUERY :: string

record SlackMessageEvent =
  EventType :: string
  Text :: string
  ChannelID :: string
  ThreadTS :: string
  TS :: string
  User :: string
  ChannelType :: string
  BotID :: string

record SlackEventPayload =
  Type :: string
  Challenge :: string
  Event :: SlackMessageEvent

section \<open>The HTTP interface of the handler\<close>

text \<open>
  The inbound request as the handler reads it: its method, and the outcome of
  \<open>io.ReadAll(r.Body)\<close> (\<open>Inl\<close> the error, \<open>Inr\<close> the bytes read).
\<close>

record Request =
  Method :: string
  Body :: "string + string"

text \<open>
  The \<open>http.ResponseWriter\<close>: the header map (as an association list), the status code
  once it has been written, and the bytes of the body written so far.
\<close>

record ResponseWriter =
  Header :: "(string \<times> string) list"
  wroteHeader :: "nat option"
  written :: string

definition newResponseWriter :: ResponseWriter where
  "newResponseWriter = \<lparr>Header = [], wroteHeader = None, written = []\<rparr>"

text \<open>\<open>Header.Set\<close>: replace the value of the key, or add the key.\<close>

fun header_Set :: "string \<Rightarrow> string \<Rightarrow> (string \<times> string) list \<Rightarrow> (string \<times> string) list" where
  "header_Set k v [] = [(k, v)]"
| "header_Set k v ((k', v') # hs) = (if k' = k then (k, v) # hs else (k', v') # header_Set k v hs)"

definition w_Header_Set :: "string \<Rightarrow> string \<Rightarrow> ResponseWriter \<Rightarrow> ResponseWriter" where
  "w_Header_Set k v w = w\<lparr>Header := header_Set k v (Header w)\<rparr>"

text \<open>\<open>WriteHeader\<close>: the first status code written stands.\<close>

definition WriteHeader :: "nat \<Rightarrow> ResponseWriter \<Rightarrow> ResponseWriter" where
  "WriteHeader code w = (case wroteHeader w of None \<Rightarrow> w\<lparr>wroteHeader := Some code\<rparr> | Some _ \<Rightarrow> w)"

text \<open>\<open>Write\<close>: a write before any \<open>WriteHeader\<close> sends status 200 first.\<close>

definition Write :: "string \<Rightarrow> ResponseWriter \<Rightarrow> ResponseWriter" where
  "Write bs w = (let w' = WriteHeader 200 w in w'\<lparr>written := written w' @ bs\<rparr>)"

text \<open>
  \<open>http.Error\<close>: plain-text content type, the status code, and the message followed by
  a newline.
\<close>

definition http_Error :: "ResponseWriter \<Rightarrow> string \<Rightarrow> nat \<Rightarrow> ResponseWriter" where
  "http_Error w msg code =
     Write (msg @ [CHR 0x0A])
       (WriteHeader code
         (w_Header_Set ''X-Content-Type-Options'' ''nosniff''
           (w_Header_Set ''Content-Type'' ''text/plain; charset=utf-8'' w)))"

text \<open>
  What the caller receives: the status code (200 when the handler returned without
  writing one) and the body.
\<close>

definition statusCode :: "ResponseWriter \<Rightarrow> nat" where
  "statusCode w = (case wroteHeader w of None \<Rightarrow> 200 | Some c \<Rightarrow> c)"

text \<open>The outbound request built by the handler, and the downstream response.\<close>

record OutRequest =
  reqMethod :: string
  reqURL :: string
  reqHeader :: "(string \<times> string) list"
  reqBody :: string

record Response =
  respBody :: "string + string"

text \<open>
  The observable effects of one run of the handler, in order: a line written to the log,
  and a call of \<open>client.Do\<close> (the downstream call).
\<close>

datatype Effect = Log string | Do OutRequest

fun downstream :: "Effect list \<Rightarrow> OutRequest list" where
  "downstream [] = []"
| "downstream (Log s # es) = downstream es"
| "downstream (Do q # es) = q # downstream es"

text \<open>
  The functions of the Go standard library that the handler calls and whose outcome it
  branches on. They are parameters of the model: \<open>json.Unmarshal\<close> into a
  \<open>SlackEventPayload\<close>, \<open>json.Marshal\<close> of an \<open>APIRequestBody\<close>, the encoding of a
  \<open>map[string]string\<close> by \<open>json.NewEncoder(w).Encode\<close> (without the final newline),
  whether \<open>http.NewRequest\<close> rejects a method and URL, and \<open>client.Do\<close>. In the sums
  \<open>Inl\<close> is the error.
\<close>

record Lib =
  json_Unmarshal :: "string \<Rightarrow> string + SlackEventPayload"
  json_Marshal :: "APIRequestBody \<Rightarrow> string + string"
  json_EncodeMap :: "(string \<times> string) list \<Rightarrow> string"
  http_NewRequest_err :: "string \<Rightarrow> string \<Rightarrow> string option"
  client_Do :: "OutRequest \<Rightarrow> string + Response"

section \<open>The handler (src/main.go, lines 70-158)\<close>

text \<open>Lines 103-117: the body sent downstream, built from the event.\<close>

definition apiBody :: "SlackMessageEvent \<Rightarrow> APIRequestBody" where
  "apiBody e =
     (let b0 = \<lparr>THREAD_ID = ThreadTS e, CHANNEL_ID = ChannelID e, USER_ID = User e, QUERY = Text e\<rparr>;
          b1 = (if THREAD_ID b0 = [] then b0\<lparr>THREAD_ID := TS e\<rparr> else b0);
          b2 = (if ChannelType e = ''im'' then b1\<lparr>THREAD_ID := []\<rparr> else b1)
      in b2)"

text \<open>Line 101: the condition of the message branch.\<close>

definition isMessageEvent :: "SlackEventPayload \<Rightarrow> bool" where
  "isMessageEvent payload \<longleftrightarrow>
     Type payload = ''event_callback'' \<and>
     (EventType (Event payload) = ''app_mention'' \<or>
      (ChannelType (Event payload) = ''im'' \<and> EventType (Event payload) = ''message'' \<and>
       BotID (Event payload) = []))"

text \<open>
  Lines 102-152, the body of the message branch. \<open>Inl\<close> is an early return of the
  handler, \<open>Inr\<close> falls through to line 156.
\<close>

definition forward ::
  "Lib \<Rightarrow> string \<Rightarrow> string \<Rightarrow> SlackMessageEvent \<Rightarrow> ResponseWriter \<Rightarrow> Effect list \<Rightarrow>
   (ResponseWriter \<times> Effect list) + (ResponseWriter \<times> Effect list)" where
  "forward lib accessToken taskAPI e w tr =
     (case json_Marshal lib (apiBody e) of
        Inl err \<Rightarrow> Inl (http_Error w ''Failed to create request body'' 500, tr)
      | Inr jsonBody \<Rightarrow>
          (case http_NewRequest_err lib ''POST'' taskAPI of
             Some err \<Rightarrow> Inl (http_Error w ''Failed to create API request'' 500, tr)
           | None \<Rightarrow>
               (let req0 = \<lparr>reqMethod = ''POST'', reqURL = taskAPI, reqHeader = [], reqBody = jsonBody\<rparr>;
                    req1 = req0\<lparr>reqHeader := header_Set ''Content-Type'' ''application/json'' (reqHeader req0)\<rparr>;
                    req = req1\<lparr>reqHeader := header_Set ''Cookie'' (''obot_access_token='' @ accessToken) (reqHeader req1)\<rparr>;
                    tr1 = tr @ [Do req]
                in (case client_Do lib req of
                      Inl err \<Rightarrow> Inl (http_Error w ''Failed to send request to API'' 500, tr1)
                    | Inr resp \<Rightarrow>
                        (case respBody resp of
                           Inl err \<Rightarrow> Inl (http_Error w ''Failed to read response body'' 500, tr1)
                         | Inr bs \<Rightarrow> Inr (w, tr1 @ [Log (''Response from API: '' @ bs)]))))))"

text \<open>
  The handler returned by \<open>handleSlackEvents(accessToken, taskAPI)\<close>, run on one request:
  the final state of the response writer and the effects, in order.
\<close>

definition handleSlackEvents ::
  "Lib \<Rightarrow> string \<Rightarrow> string \<Rightarrow> Request \<Rightarrow> ResponseWriter \<times> Effect list" where
  "handleSlackEvents lib accessToken taskAPI r =
     (let w = newResponseWriter in
      if Method r \<noteq> ''POST'' then (http_Error w ''Method not allowed'' 405, [])
      else
        (case Body r of
           Inl err \<Rightarrow> (http_Error w ''Failed to read request body'' 500, [])
         | Inr rawEventData \<Rightarrow>
             (let tr = [Log (''Raw event data: '' @ rawEventData)] in
              case json_Unmarshal lib rawEventData of
                Inl err \<Rightarrow> (http_Error w ''Failed to parse request body'' 400, tr)
              | Inr payload \<Rightarrow>
                  if Type payload = ''url_verification'' then
                    (Write (json_EncodeMap lib [(''challenge'', Challenge payload)] @ [CHR 0x0A])
                       (w_Header_Set ''Content-Type'' ''application/json'' w), tr)
                  else if isMessageEvent payload then
                    (case forward lib accessToken taskAPI (Event payload) w tr of
                       Inl res \<Rightarrow> res
                     | Inr (w', tr') \<Rightarrow> (WriteHeader 200 w', tr'))
                  else (WriteHeader 200 w, tr))))"

section \<open>Startup (src/main.go, lines 48-68)\<close>

text \<open>
  The environment is the function \<open>os.Getenv\<close>: an unset variable reads as the empty
  string. \<open>http.ListenAndServe\<close> is a parameter: it returns an error before the listener
  accepts any connection (\<open>ListenError\<close>, for instance when the address cannot be bound),
  returns an error after it has been serving (\<open>ServeError\<close>), or serves for ever.
\<close>

datatype ListenResult = ListenError string | ServeError string | ServeForever

datatype Ending = Fatal string | Serving

text \<open>
  What a run of \<open>main\<close> does: the handlers registered with \<open>http.HandleFunc\<close> (the
  pattern, and the access token and task URL captured by the handler), the text printed,
  whether the listener got to accept connections, and how the run ends.
\<close>

record Process =
  routes :: "(string \<times> string \<times> string) list"
  printed :: string
  accepting :: bool
  ending :: Ending

definition main :: "(string \<Rightarrow> string) \<Rightarrow> (string \<Rightarrow> ListenResult) \<Rightarrow> Process" where
  "main getenv listenAndServe =
     (let accessToken = getenv ''OBOT_ACCESS_TOKEN'' in
      if accessToken = [] then
        \<lparr>routes = [], printed = [], accepting = False,
         ending = Fatal ''OBOT_ACCESS_TOKEN environment variable must be set''\<rparr>
      else
        (let taskAPI = getenv ''TASK_API_URL'';
             rs = [(''/slack/events'', accessToken, taskAPI)];
             port = (let envPort = getenv ''PORT'' in if envPort \<noteq> [] then envPort else ''8088'');
             out = ''Server starting on port '' @ port @ ''...'' @ [CHR 0x0A]
         in (case listenAndServe ('':'' @ port) of
               ListenError err \<Rightarrow> \<lparr>routes = rs, printed = out, accepting = False, ending = Fatal err\<rparr>
             | ServeError err \<Rightarrow> \<lparr>routes = rs, printed = out, accepting = True, ending = Fatal err\<rparr>
             | ServeForever \<Rightarrow> \<lparr>routes = rs, printed = out, accepting = True, ending = Serving\<rparr>)))"

text \<open>The run ends in \<open>log.Fatal\<close> without the listener ever having accepted a connection.\<close>

definition fatalBeforeServing :: "Process \<Rightarrow> bool" where
  "fatalBeforeServing p \<longleftrightarrow> (case ending p of Fatal msg \<Rightarrow> \<not> accepting p | Serving \<Rightarrow> False)"

section \<open>Sample inputs\<close>

text \<open>
  Concrete requests and a concrete library to evaluate the handler on. The sample
  library decodes the three request bodies below as \<open>encoding/json\<close> does and rejects
  every other one; it renders JSON strings without escaping, which is what
  \<open>encoding/json\<close> does on the strings used here; \<open>http.NewRequest\<close> rejects the URL
  \<open>:\<close> (missing protocol scheme); the downstream service answers \<open>ok\<close>.
\<close>

definition mentionEvent :: SlackMessageEvent where
  "mentionEvent = \<lparr>EventType = ''app_mention'', Text = ''hi'', ChannelID = ''C1'', ThreadTS = [],
     TS = ''100.1'', User = ''U1'', ChannelType = [], BotID = []\<rparr>"

definition mentionPayload :: SlackEventPayload where
  "mentionPayload = \<lparr>Type = ''event_callback'', Challenge = [], Event = mentionEvent\<rparr>"

definition mentionRaw :: string where
  \<open>mentionRaw = ''{"type":"event_callback","event":{"type":"app_mention","text":"hi","channel":"C1","ts":"100.1","user":"U1"}}''\<close>

definition emptyEvent :: SlackMessageEvent where
  "emptyEvent = \<lparr>EventType = [], Text = [], ChannelID = [], ThreadTS = [], TS = [], User = [],
     ChannelType = [], BotID = []\<rparr>"

definition verificationPayload :: SlackEventPayload where
  "verificationPayload = \<lparr>Type = ''url_verification'', Challenge = ''abc123'', Event = emptyEvent\<rparr>"

definition verificationRaw :: string where
  \<open>verificationRaw = ''{"type":"url_verification","challenge":"abc123"}''\<close>

definition botMessagePayload :: SlackEventPayload where
  "botMessagePayload = \<lparr>Type = ''event_callback'', Challenge = [],
     Event = \<lparr>EventType = ''message'', Text = ''pong'', ChannelID = ''D1'', ThreadTS = [],
       TS = ''200.2'', User = ''U2'', ChannelType = ''im'', BotID = ''B1''\<rparr>\<rparr>"

definition botMessageRaw :: string where
  \<open>botMessageRaw = ''{"type":"event_callback","event":{"type":"message","text":"pong","channel":"D1","ts":"200.2","user":"U2","channel_type":"im","bot_id":"B1"}}''\<close>

definition botMentionPayload :: SlackEventPayload where
  "botMentionPayload = \<lparr>Type = ''event_callback'', Challenge = [],
     Event = \<lparr>EventType = ''app_mention'', Text = ''ping'', ChannelID = ''C2'', ThreadTS = ''50.5'',
       TS = ''300.3'', User = ''U3'', ChannelType = ''channel'', BotID = ''B2''\<rparr>\<rparr>"

definition botMentionRaw :: string where
  \<open>botMentionRaw = ''{"type":"event_callback","event":{"type":"app_mention","text":"ping","channel":"C2","thread_ts":"50.5","ts":"300.3","user":"U3","channel_type":"channel","bot_id":"B2"}}''\<close>

fun renderPairs :: "(string \<times> string) list \<Rightarrow> string" where
  "renderPairs [] = []"
| \<open>renderPairs [(k, v)] = ''"'' @ k @ ''":"'' @ v @ ''"''\<close>
| \<open>renderPairs ((k, v) # kvs) = ''"'' @ k @ ''":"'' @ v @ ''",'' @ renderPairs kvs\<close>

definition renderObject :: "(string \<times> string) list \<Rightarrow> string" where
  "renderObject kvs = ''{'' @ renderPairs kvs @ ''}''"

definition sampleLib :: Lib where
  "sampleLib = \<lparr>
     json_Unmarshal = (\<lambda>raw.
       if raw = mentionRaw then Inr mentionPayload
       else if raw = verificationRaw then Inr verificationPayload
       else if raw = botMessageRaw then Inr botMessagePayload
       else if raw = botMentionRaw then Inr botMentionPayload
       else Inl ''unexpected end of JSON input''),
     json_Marshal = (\<lambda>b. Inr (renderObject [(''THREAD_ID'', THREAD_ID b), (''CHANNEL_ID'', CHANNEL_ID b),
       (''USER_ID'', USER_ID b), (''QUERY'', QUERY b)])),
     json_EncodeMap = renderObject,
     http_NewRequest_err = (\<lambda>m u. if u = '':'' then Some ''missing protocol scheme'' else None),
     client_Do = (\<lambda>q. Inr \<lparr>respBody = Inr ''ok''\<rparr>)\<rparr>"

definition post :: "string \<Rightarrow> Request" where
  "post raw = \<lparr>Method = ''POST'', Body = Inr raw\<rparr>"

definition sampleEnv :: "string \<Rightarrow> string" where
  "sampleEnv k = (if k = ''OBOT_ACCESS_TOKEN'' then ''secret'' else [])"

definition portInUse :: "string \<Rightarrow> ListenResult" where
  "portInUse addr = ListenError ''bind: address already in use''"

text \<open>
  A library whose downstream service refuses the connection, an environment with no
  variable set, and a listener that binds and serves.
\<close>

definition refusingLib :: Lib where
  "refusingLib = sampleLib\<lparr>client_Do := (\<lambda>q. Inl ''connection refused'')\<rparr>"

definition emptyEnv :: "string \<Rightarrow> string" where
  "emptyEnv k = []"

definition alwaysServes :: "string \<Rightarrow> ListenResult" where
  "alwaysServes addr = ServeForever"

section \<open>Facts about the response writer and the samples\<close>

lemma statusCode_http_Error [simp]:
  "statusCode (http_Error newResponseWriter msg code) = code"
  by (simp add: statusCode_def http_Error_def Write_def WriteHeader_def w_Header_Set_def
      newResponseWriter_def Let_def)

lemma written_http_Error [simp]:
  "written (http_Error newResponseWriter msg code) = msg @ [CHR 0x0A]"
  by (simp add: http_Error_def Write_def WriteHeader_def w_Header_Set_def
      newResponseWriter_def Let_def)

lemma statusCode_WriteHeader_new [simp]:
  "statusCode (WriteHeader code newResponseWriter) = code"
  by (simp add: statusCode_def WriteHeader_def newResponseWriter_def)

lemma written_WriteHeader [simp]: "written (WriteHeader code w) = written w"
  by (simp add: WriteHeader_def split: option.splits)

lemma written_new [simp]: "written newResponseWriter = []"
  by (simp add: newResponseWriter_def)

lemma downstream_append [simp]: "downstream (xs @ ys) = downstream xs @ downstream ys"
  by (induction xs rule: downstream.induct) simp_all

lemma post_simps [simp]: "Method (post raw) = ''POST''" "Body (post raw) = Inr raw"
  by (simp_all add: post_def)

lemma sample_unmarshal_mention:
  "json_Unmarshal sampleLib mentionRaw = Inr mentionPayload"
  by (simp add: sampleLib_def)

lemma sample_unmarshal_verification:
  "json_Unmarshal sampleLib verificationRaw = Inr verificationPayload"
  by (simp add: sampleLib_def verificationRaw_def mentionRaw_def)

lemma sample_unmarshal_botMessage:
  "json_Unmarshal sampleLib botMessageRaw = Inr botMessagePayload"
  by (simp add: sampleLib_def botMessageRaw_def verificationRaw_def mentionRaw_def)

lemma sample_unmarshal_botMention:
  "json_Unmarshal sampleLib botMentionRaw = Inr botMentionPayload"
  by (simp add: sampleLib_def botMessageRaw_def verificationRaw_def mentionRaw_def botMentionRaw_def)

lemma sample_unmarshal_malformed:
  "json_Unmarshal sampleLib ''{'' = Inl ''unexpected end of JSON input''"
  by (simp add: sampleLib_def botMessageRaw_def verificationRaw_def mentionRaw_def botMentionRaw_def)

lemma refusing_unmarshal_mention:
  "json_Unmarshal refusingLib mentionRaw = Inr mentionPayload"
  by (simp add: refusingLib_def sample_unmarshal_mention)

lemma sample_marshal:
  "json_Marshal sampleLib b = Inr (renderObject [(''THREAD_ID'', THREAD_ID b), (''CHANNEL_ID'', CHANNEL_ID b),
       (''USER_ID'', USER_ID b), (''QUERY'', QUERY b)])"
  by (simp add: sampleLib_def)

lemma sample_newrequest:
  "http_NewRequest_err sampleLib m u = (if u = '':'' then Some ''missing protocol scheme'' else None)"
  by (simp add: sampleLib_def)

section \<open>The branches of the handler\<close>

text \<open>The handler on a POST request whose body was read and decoded.\<close>

lemma handle_parsed:
  assumes "Method r = ''POST''" "Body r = Inr raw" "json_Unmarshal lib raw = Inr p"
  shows "handleSlackEvents lib accessToken taskAPI r =
     (if Type p = ''url_verification'' then
        (Write (json_EncodeMap lib [(''challenge'', Challenge p)] @ [CHR 0x0A])
           (w_Header_Set ''Content-Type'' ''application/json'' newResponseWriter),
         [Log (''Raw event data: '' @ raw)])
      else if isMessageEvent p then
        (case forward lib accessToken taskAPI (Event p) newResponseWriter [Log (''Raw event data: '' @ raw)] of
           Inl res \<Rightarrow> res
         | Inr (w', tr') \<Rightarrow> (WriteHeader 200 w', tr'))
      else (WriteHeader 200 newResponseWriter, [Log (''Raw event data: '' @ raw)]))"
  using assms by (simp add: handleSlackEvents_def Let_def)

text \<open>The message branch, by the step at which it stops.\<close>

lemma forward_marshal_error:
  assumes "json_Marshal lib (apiBody e) = Inl err"
  shows "forward lib accessToken taskAPI e w tr = Inl (http_Error w ''Failed to create request body'' 500, tr)"
  using assms by (simp add: forward_def)

lemma forward_newrequest_error:
  assumes "json_Marshal lib (apiBody e) = Inr jb" "http_NewRequest_err lib ''POST'' taskAPI = Some err"
  shows "forward lib accessToken taskAPI e w tr = Inl (http_Error w ''Failed to create API request'' 500, tr)"
  using assms by (simp add: forward_def)

lemma forward_built:
  assumes "json_Marshal lib (apiBody e) = Inr jb" "http_NewRequest_err lib ''POST'' taskAPI = None"
    and "q = \<lparr>reqMethod = ''POST'', reqURL = taskAPI,
       reqHeader = [(''Content-Type'', ''application/json''), (''Cookie'', ''obot_access_token='' @ accessToken)],
       reqBody = jb\<rparr>"
  shows "forward lib accessToken taskAPI e w tr =
     (case client_Do lib q of
        Inl err \<Rightarrow> Inl (http_Error w ''Failed to send request to API'' 500, tr @ [Do q])
      | Inr resp \<Rightarrow>
          (case respBody resp of
             Inl err \<Rightarrow> Inl (http_Error w ''Failed to read response body'' 500, tr @ [Do q])
           | Inr bs \<Rightarrow> Inr (w, tr @ [Do q, Log (''Response from API: '' @ bs)])))"
  using assms by (simp add: forward_def Let_def split: sum.splits)

lemma forward_downstream:
  "(case forward lib accessToken taskAPI e w tr of Inl res \<Rightarrow> downstream (snd res) | Inr res \<Rightarrow> downstream (snd res)) =
     downstream tr @
     (case json_Marshal lib (apiBody e) of
        Inl err \<Rightarrow> []
      | Inr jb \<Rightarrow>
          (case http_NewRequest_err lib ''POST'' taskAPI of
             Some err \<Rightarrow> []
           | None \<Rightarrow> [\<lparr>reqMethod = ''POST'', reqURL = taskAPI,
               reqHeader = [(''Content-Type'', ''application/json''), (''Cookie'', ''obot_access_token='' @ accessToken)],
               reqBody = jb\<rparr>]))"
  by (simp add: forward_def Let_def split: sum.splits option.splits)

text \<open>The downstream calls of one run: at most one, and only from the message branch.\<close>

lemma isMessageEvent_not_verification: "isMessageEvent p \<Longrightarrow> Type p \<noteq> ''url_verification''"
  by (auto simp add: isMessageEvent_def)

lemma handle_message_downstream:
  assumes "Method r = ''POST''" and "Body r = Inr raw" and "json_Unmarshal lib raw = Inr p"
    and "Type p \<noteq> ''url_verification''" and "isMessageEvent p"
  shows "downstream (snd (handleSlackEvents lib accessToken taskAPI r)) =
     (case json_Marshal lib (apiBody (Event p)) of
        Inl err \<Rightarrow> []
      | Inr jb \<Rightarrow>
          (case http_NewRequest_err lib ''POST'' taskAPI of
             Some err \<Rightarrow> []
           | None \<Rightarrow> [\<lparr>reqMethod = ''POST'', reqURL = taskAPI,
               reqHeader = [(''Content-Type'', ''application/json''), (''Cookie'', ''obot_access_token='' @ accessToken)],
               reqBody = jb\<rparr>]))"
proof -
  have "downstream (snd (handleSlackEvents lib accessToken taskAPI r)) =
      (case forward lib accessToken taskAPI (Event p) newResponseWriter [Log (''Raw event data: '' @ raw)] of
         Inl res \<Rightarrow> downstream (snd res) | Inr res \<Rightarrow> downstream (snd res))"
    using assms(4,5) by (simp add: handle_parsed [OF assms(1-3)] split: sum.splits prod.splits)
  then show ?thesis
    by (simp add: forward_downstream)
qed

lemma handle_other_downstream:
  assumes "Method r = ''POST''" and "Body r = Inr raw" and "json_Unmarshal lib raw = Inr p"
    and "Type p = ''url_verification'' \<or> \<not> isMessageEvent p"
  shows "downstream (snd (handleSlackEvents lib accessToken taskAPI r)) = []"
  using assms(4) by (auto simp add: handle_parsed [OF assms(1-3)])

lemma message_downstream_member:
  assumes "Method r = ''POST''" and "Body r = Inr raw" and "json_Unmarshal lib raw = Inr p"
    and "q \<in> set (downstream (snd (handleSlackEvents lib accessToken taskAPI r)))"
  shows "isMessageEvent p \<and> json_Marshal lib (apiBody (Event p)) = Inr (reqBody q)
       \<and> http_NewRequest_err lib ''POST'' taskAPI = None
       \<and> q = \<lparr>reqMethod = ''POST'', reqURL = taskAPI,
               reqHeader = [(''Content-Type'', ''application/json''), (''Cookie'', ''obot_access_token='' @ accessToken)],
               reqBody = reqBody q\<rparr>
       \<and> downstream (snd (handleSlackEvents lib accessToken taskAPI r)) = [q]"
proof (cases "isMessageEvent p")
  case False
  then have "downstream (snd (handleSlackEvents lib accessToken taskAPI r)) = []"
    by (simp add: handle_other_downstream [OF assms(1-3)])
  with assms(4) show ?thesis by simp
next
  case True
  then have nv: "Type p \<noteq> ''url_verification''"
    by (rule isMessageEvent_not_verification)
  show ?thesis
    using assms(4) True
    by (auto simp add: handle_message_downstream [OF assms(1-3) nv True] split: sum.splits option.splits)
qed

lemma message_at_most_one_call:
  assumes "Method r = ''POST''" and "Body r = Inr raw" and "json_Unmarshal lib raw = Inr p"
  shows "length (downstream (snd (handleSlackEvents lib accessToken taskAPI r))) \<le> 1"
proof (cases "isMessageEvent p")
  case False
  then show ?thesis by (simp add: handle_other_downstream [OF assms])
next
  case True
  then have nv: "Type p \<noteq> ''url_verification''"
    by (rule isMessageEvent_not_verification)
  show ?thesis
    by (simp add: handle_message_downstream [OF assms nv True] split: sum.splits option.splits)
qed

text \<open>A message event whose outbound request cannot be built.\<close>

lemma handle_build_failure:
  assumes "Method r = ''POST''" and "Body r = Inr raw" and "json_Unmarshal lib raw = Inr p"
    and "isMessageEvent p"
    and "(\<exists>err. json_Marshal lib (apiBody (Event p)) = Inl err)
       \<or> (\<exists>err. http_NewRequest_err lib ''POST'' taskAPI = Some err)"
  shows "statusCode (fst (handleSlackEvents lib accessToken taskAPI r)) = 500
       \<and> downstream (snd (handleSlackEvents lib accessToken taskAPI r)) = []"
proof -
  have nv: "Type p \<noteq> ''url_verification''"
    using assms(4) by (rule isMessageEvent_not_verification)
  let ?tr = "[Log (''Raw event data: '' @ raw)]"
  have "\<exists>w. forward lib accessToken taskAPI (Event p) newResponseWriter ?tr = Inl (w, ?tr)
           \<and> statusCode w = 500"
  proof (cases "json_Marshal lib (apiBody (Event p))")
    case (Inl err)
    then show ?thesis by (simp add: forward_marshal_error)
  next
    case (Inr jb)
    with assms(5) obtain err where "http_NewRequest_err lib ''POST'' taskAPI = Some err"
      by auto
    then show ?thesis by (simp add: forward_newrequest_error [OF Inr])
  qed
  then obtain w where
    f: "forward lib accessToken taskAPI (Event p) newResponseWriter ?tr = Inl (w, ?tr)"
    and st: "statusCode w = 500"
    by blast
  show ?thesis
    using nv assms(4) st f by (simp add: handle_parsed [OF assms(1-3)])
qed

text \<open>The fields of the body sent downstream.\<close>

lemma apiBody_fields:
  "CHANNEL_ID (apiBody e) = ChannelID e" "USER_ID (apiBody e) = User e" "QUERY (apiBody e) = Text e"
  by (simp_all add: apiBody_def Let_def)

lemma apiBody_THREAD_ID:
  "THREAD_ID (apiBody e) =
     (if ChannelType e = ''im'' then [] else if ThreadTS e \<noteq> [] then ThreadTS e else TS e)"
  by (simp add: apiBody_def Let_def)

lemma apiBody_eq:
  "apiBody e = \<lparr>THREAD_ID = THREAD_ID (apiBody e), CHANNEL_ID = ChannelID e, USER_ID = User e, QUERY = Text e\<rparr>"
  by (simp add: apiBody_def Let_def)

lemma apiBody_im_example:
  "THREAD_ID (apiBody \<lparr>EventType = ''message'', Text = ''hello'', ChannelID = ''D9'', ThreadTS = ''7.7'',
     TS = ''8.8'', User = ''U9'', ChannelType = ''im'', BotID = []\<rparr>) = []"
  by (simp add: apiBody_def)

text \<open>The two sample mentions, run through the handler.\<close>

lemma sample_downstream_mention:
  \<open>downstream (snd (handleSlackEvents sampleLib ''secret'' ''http://task'' (post mentionRaw))) =
     [\<lparr>reqMethod = ''POST'', reqURL = ''http://task'',
       reqHeader = [(''Content-Type'', ''application/json''), (''Cookie'', ''obot_access_token=secret'')],
       reqBody = ''{"THREAD_ID":"100.1","CHANNEL_ID":"C1","USER_ID":"U1","QUERY":"hi"}''\<rparr>]\<close>
proof -
  have q: "isMessageEvent mentionPayload" and nv: "Type mentionPayload \<noteq> ''url_verification''"
    by (simp_all add: isMessageEvent_def mentionPayload_def mentionEvent_def)
  show ?thesis
    by (simp add: handle_message_downstream [OF post_simps sample_unmarshal_mention nv q]
        sample_marshal sample_newrequest renderObject_def apiBody_def mentionPayload_def mentionEvent_def)
qed

lemma sample_downstream_botMention:
  \<open>downstream (snd (handleSlackEvents sampleLib ''secret'' ''http://task'' (post botMentionRaw))) =
     [\<lparr>reqMethod = ''POST'', reqURL = ''http://task'',
       reqHeader = [(''Content-Type'', ''application/json''), (''Cookie'', ''obot_access_token=secret'')],
       reqBody = ''{"THREAD_ID":"50.5","CHANNEL_ID":"C2","USER_ID":"U3","QUERY":"ping"}''\<rparr>]\<close>
proof -
  have q: "isMessageEvent botMentionPayload" and nv: "Type botMentionPayload \<noteq> ''url_verification''"
    by (simp_all add: isMessageEvent_def botMentionPayload_def)
  show ?thesis
    by (simp add: handle_message_downstream [OF post_simps sample_unmarshal_botMention nv q]
        sample_marshal sample_newrequest renderObject_def apiBody_def botMentionPayload_def)
qed

section \<open>Properties of the handler\<close>

text \<open>
  In the statements below a \<^emph>\<open>parsed envelope\<close> is the payload \<open>p\<close> that \<open>json.Unmarshal\<close>
  returned for the body of a POST request that was read without error; the downstream
  calls of a run are the \<open>client.Do\<close> calls among its effects.
\<close>

text \<open>
  C1 (as amended). For every parsed envelope the handler makes a downstream call exactly
  when the envelope's type is \<open>event_callback\<close>, and the event's type is \<open>app_mention\<close> or
  the event is a \<open>message\<close> in an \<open>im\<close> channel with an empty \<open>bot_id\<close>, and the outbound
  request could be built: \<open>json.Marshal\<close> returned the body and \<open>http.NewRequest\<close> accepted
  the configured URL. When the envelope qualifies and building the request fails, the
  handler answers with status 500 and makes no downstream call.
\<close>

theorem downstream_call_iff:
  assumes "Method r = ''POST''" and "Body r = Inr raw" and "json_Unmarshal lib raw = Inr p"
  shows "(downstream (snd (handleSlackEvents lib accessToken taskAPI r)) \<noteq> [] \<longleftrightarrow>
     (Type p = ''event_callback'' \<and>
       (EventType (Event p) = ''app_mention'' \<or>
        (ChannelType (Event p) = ''im'' \<and> EventType (Event p) = ''message'' \<and> BotID (Event p) = [])))
     \<and> (\<exists>jsonBody. json_Marshal lib (apiBody (Event p)) = Inr jsonBody)
     \<and> http_NewRequest_err lib ''POST'' taskAPI = None)
   \<and> ((Type p = ''event_callback'' \<and>
       (EventType (Event p) = ''app_mention'' \<or>
        (ChannelType (Event p) = ''im'' \<and> EventType (Event p) = ''message'' \<and> BotID (Event p) = [])))
      \<and> ((\<exists>err. json_Marshal lib (apiBody (Event p)) = Inl err)
         \<or> (\<exists>err. http_NewRequest_err lib ''POST'' taskAPI = Some err))
     \<longrightarrow> statusCode (fst (handleSlackEvents lib accessToken taskAPI r)) = 500
       \<and> downstream (snd (handleSlackEvents lib accessToken taskAPI r)) = [])"
proof (cases "isMessageEvent p")
  case True
  then have nv: "Type p \<noteq> ''url_verification''"
    by (rule isMessageEvent_not_verification)
  from True have cond: "Type p = ''event_callback'' \<and>
       (EventType (Event p) = ''app_mention'' \<or>
        (ChannelType (Event p) = ''im'' \<and> EventType (Event p) = ''message'' \<and> BotID (Event p) = []))"
    unfolding isMessageEvent_def .
  have first: "downstream (snd (handleSlackEvents lib accessToken taskAPI r)) \<noteq> [] \<longleftrightarrow>
     (Type p = ''event_callback'' \<and>
       (EventType (Event p) = ''app_mention'' \<or>
        (ChannelType (Event p) = ''im'' \<and> EventType (Event p) = ''message'' \<and> BotID (Event p) = [])))
     \<and> (\<exists>jsonBody. json_Marshal lib (apiBody (Event p)) = Inr jsonBody)
     \<and> http_NewRequest_err lib ''POST'' taskAPI = None"
    using cond by (simp add: handle_message_downstream [OF assms nv True] split: sum.splits option.splits)
  show ?thesis
    using first handle_build_failure [OF assms True] by blast
next
  case False
  then have ncond: "\<not> (Type p = ''event_callback'' \<and>
       (EventType (Event p) = ''app_mention'' \<or>
        (ChannelType (Event p) = ''im'' \<and> EventType (Event p) = ''message'' \<and> BotID (Event p) = [])))"
    unfolding isMessageEvent_def .
  have "downstream (snd (handleSlackEvents lib accessToken taskAPI r)) = []"
    using False by (simp add: handle_other_downstream [OF assms])
  with ncond show ?thesis by blast
qed

theorem downstream_call_iff_witness:
  "downstream (snd (handleSlackEvents sampleLib ''secret'' ''http://task'' (post mentionRaw))) \<noteq> []
   \<and> downstream (snd (handleSlackEvents sampleLib ''secret'' ''http://task'' (post botMessageRaw))) = []
   \<and> statusCode (fst (handleSlackEvents sampleLib ''secret'' '':'' (post botMentionRaw))) = 500
   \<and> downstream (snd (handleSlackEvents sampleLib ''secret'' '':'' (post botMentionRaw))) = []"
proof -
  have a: "downstream (snd (handleSlackEvents sampleLib ''secret'' ''http://task'' (post mentionRaw))) \<noteq> []"
    using downstream_call_iff [OF post_simps sample_unmarshal_mention, of "''secret''" "''http://task''"]
    by (simp add: sample_marshal sample_newrequest mentionPayload_def mentionEvent_def)
  have b: "downstream (snd (handleSlackEvents sampleLib ''secret'' ''http://task'' (post botMessageRaw))) = []"
    using downstream_call_iff [OF post_simps sample_unmarshal_botMessage, of "''secret''" "''http://task''"]
    by (simp add: sample_marshal sample_newrequest botMessagePayload_def)
  have c: "statusCode (fst (handleSlackEvents sampleLib ''secret'' '':'' (post botMentionRaw))) = 500
       \<and> downstream (snd (handleSlackEvents sampleLib ''secret'' '':'' (post botMentionRaw))) = []"
    using downstream_call_iff [OF post_simps sample_unmarshal_botMention, of "''secret''" "'':''"]
    by (simp add: sample_marshal sample_newrequest botMentionPayload_def)
  from a b c show ?thesis by simp
qed

text \<open>
  The claim without the last condition fails: with the task URL \<open>:\<close>, which
  \<open>http.NewRequest\<close> rejects, the sample mention qualifies and is answered with status 500
  and no downstream call (lines 128-132).
\<close>

theorem downstream_call_build_counterexample:
  "json_Unmarshal sampleLib mentionRaw = Inr mentionPayload
   \<and> Type mentionPayload = ''event_callback''
   \<and> EventType (Event mentionPayload) = ''app_mention''
   \<and> downstream (snd (handleSlackEvents sampleLib ''secret'' '':'' (post mentionRaw))) = []
   \<and> statusCode (fst (handleSlackEvents sampleLib ''secret'' '':'' (post mentionRaw))) = 500"
proof -
  have q: "isMessageEvent mentionPayload"
    by (simp add: isMessageEvent_def mentionPayload_def mentionEvent_def)
  have f: "forward sampleLib ''secret'' '':'' (Event mentionPayload) newResponseWriter tr =
      Inl (http_Error newResponseWriter ''Failed to create API request'' 500, tr)" for tr
    by (rule forward_newrequest_error [OF sample_marshal]) (simp add: sample_newrequest)
  show ?thesis
    using q by (simp add: handle_parsed [OF post_simps sample_unmarshal_mention] f sample_unmarshal_mention)
      (simp add: mentionPayload_def mentionEvent_def)
qed

text \<open>
  C2. For every qualifying event, every request sent downstream carries the JSON
  serialization of the body built from the event, whose \<open>THREAD_ID\<close> is the empty string
  when the event's \<open>channel_type\<close> is \<open>im\<close>, and otherwise \<open>thread_ts\<close> if that is
  non-empty, else \<open>ts\<close>.
\<close>

theorem forwarded_thread_id:
  assumes "Method r = ''POST''" and "Body r = Inr raw" and "json_Unmarshal lib raw = Inr p"
    and "Type p = ''event_callback'' \<and>
         (EventType (Event p) = ''app_mention'' \<or>
          (ChannelType (Event p) = ''im'' \<and> EventType (Event p) = ''message'' \<and> BotID (Event p) = []))"
    and "q \<in> set (downstream (snd (handleSlackEvents lib accessToken taskAPI r)))"
  shows "json_Marshal lib (apiBody (Event p)) = Inr (reqBody q)
       \<and> THREAD_ID (apiBody (Event p)) =
           (if ChannelType (Event p) = ''im'' then []
            else if ThreadTS (Event p) \<noteq> [] then ThreadTS (Event p) else TS (Event p))"
  using message_downstream_member [OF assms(1-3,5)] by (simp add: apiBody_THREAD_ID)

theorem forwarded_thread_id_witness:
  \<open>json_Marshal sampleLib (apiBody (Event botMentionPayload)) =
     Inr ''{"THREAD_ID":"50.5","CHANNEL_ID":"C2","USER_ID":"U3","QUERY":"ping"}''
   \<and> THREAD_ID (apiBody (Event botMentionPayload)) = ''50.5''\<close>
proof -
  have qual: "Type botMentionPayload = ''event_callback'' \<and>
         (EventType (Event botMentionPayload) = ''app_mention'' \<or>
          (ChannelType (Event botMentionPayload) = ''im'' \<and> EventType (Event botMentionPayload) = ''message''
           \<and> BotID (Event botMentionPayload) = []))"
    by (simp add: botMentionPayload_def)
  have mem: \<open>\<lparr>reqMethod = ''POST'', reqURL = ''http://task'',
       reqHeader = [(''Content-Type'', ''application/json''), (''Cookie'', ''obot_access_token=secret'')],
       reqBody = ''{"THREAD_ID":"50.5","CHANNEL_ID":"C2","USER_ID":"U3","QUERY":"ping"}''\<rparr>
     \<in> set (downstream (snd (handleSlackEvents sampleLib ''secret'' ''http://task'' (post botMentionRaw))))\<close>
    by (simp add: sample_downstream_botMention)
  show ?thesis
    using forwarded_thread_id [OF post_simps sample_unmarshal_botMention qual mem]
    by (simp add: botMentionPayload_def)
qed

text \<open>
  C3. For every parsed envelope of type \<open>url_verification\<close> the response has status 200,
  the content type \<open>application/json\<close> and as body the JSON encoding of the object with the
  single key \<open>challenge\<close> bound to the envelope's challenge (followed by the newline that
  \<open>Encode\<close> appends); there is no downstream call. No other field of the envelope occurs
  in the response.
\<close>

theorem url_verification_echo:
  assumes "Method r = ''POST''" and "Body r = Inr raw" and "json_Unmarshal lib raw = Inr p"
    and "Type p = ''url_verification''"
  shows "statusCode (fst (handleSlackEvents lib accessToken taskAPI r)) = 200
       \<and> written (fst (handleSlackEvents lib accessToken taskAPI r)) =
           json_EncodeMap lib [(''challenge'', Challenge p)] @ [CHR 0x0A]
       \<and> Header (fst (handleSlackEvents lib accessToken taskAPI r)) = [(''Content-Type'', ''application/json'')]
       \<and> downstream (snd (handleSlackEvents lib accessToken taskAPI r)) = []"
  using assms
  by (simp add: handle_parsed [OF assms(1-3)] Write_def WriteHeader_def w_Header_Set_def
      newResponseWriter_def statusCode_def Let_def)

theorem url_verification_echo_witness:
  \<open>statusCode (fst (handleSlackEvents sampleLib ''secret'' ''http://task'' (post verificationRaw))) = 200
   \<and> written (fst (handleSlackEvents sampleLib ''secret'' ''http://task'' (post verificationRaw))) =
       ''{"challenge":"abc123"}'' @ [CHR 0x0A]
   \<and> downstream (snd (handleSlackEvents sampleLib ''secret'' ''http://task'' (post verificationRaw))) = []\<close>
proof -
  have ty: "Type verificationPayload = ''url_verification''"
    by (simp add: verificationPayload_def)
  have enc: \<open>json_EncodeMap sampleLib [(''challenge'', Challenge verificationPayload)] = ''{"challenge":"abc123"}''\<close>
    by (simp add: sampleLib_def renderObject_def verificationPayload_def)
  show ?thesis
    using url_verification_echo [OF post_simps sample_unmarshal_verification ty, of "''secret''" "''http://task''"]
    by (simp add: enc)
qed

text \<open>
  C4. For every qualifying event, a request sent downstream is the only one of the run;
  its method is POST, its URL the configured task URL, its headers are
  \<open>Content-Type: application/json\<close> and \<open>Cookie: obot_access_token=\<close> followed by the
  configured token (the header map is modelled as a list), and its body is the JSON
  serialization of the body whose \<open>CHANNEL_ID\<close>, \<open>USER_ID\<close> and \<open>QUERY\<close> are the event's
  \<open>channel\<close>, \<open>user\<close> and \<open>text\<close>.
\<close>

theorem downstream_request_shape:
  assumes "Method r = ''POST''" and "Body r = Inr raw" and "json_Unmarshal lib raw = Inr p"
    and "Type p = ''event_callback'' \<and>
         (EventType (Event p) = ''app_mention'' \<or>
          (ChannelType (Event p) = ''im'' \<and> EventType (Event p) = ''message'' \<and> BotID (Event p) = []))"
    and "q \<in> set (downstream (snd (handleSlackEvents lib accessToken taskAPI r)))"
  shows "downstream (snd (handleSlackEvents lib accessToken taskAPI r)) = [q]
       \<and> reqMethod q = ''POST''
       \<and> reqURL q = taskAPI
       \<and> reqHeader q = [(''Content-Type'', ''application/json''), (''Cookie'', ''obot_access_token='' @ accessToken)]
       \<and> json_Marshal lib \<lparr>THREAD_ID = THREAD_ID (apiBody (Event p)), CHANNEL_ID = ChannelID (Event p),
            USER_ID = User (Event p), QUERY = Text (Event p)\<rparr> = Inr (reqBody q)"
proof -
  note m = message_downstream_member [OF assms(1-3,5)]
  from m have "q = \<lparr>reqMethod = ''POST'', reqURL = taskAPI,
               reqHeader = [(''Content-Type'', ''application/json''), (''Cookie'', ''obot_access_token='' @ accessToken)],
               reqBody = reqBody q\<rparr>" by simp
  then have "reqMethod q = ''POST''" "reqURL q = taskAPI"
    "reqHeader q = [(''Content-Type'', ''application/json''), (''Cookie'', ''obot_access_token='' @ accessToken)]"
    by (metis OutRequest.select_convs(1), metis OutRequest.select_convs(2), metis OutRequest.select_convs(3))
  moreover from m have "json_Marshal lib (apiBody (Event p)) = Inr (reqBody q)" by simp
  then have "json_Marshal lib \<lparr>THREAD_ID = THREAD_ID (apiBody (Event p)), CHANNEL_ID = ChannelID (Event p),
            USER_ID = User (Event p), QUERY = Text (Event p)\<rparr> = Inr (reqBody q)"
    using apiBody_eq [of "Event p"] by simp
  moreover from m have "downstream (snd (handleSlackEvents lib accessToken taskAPI r)) = [q]" by simp
  ultimately show ?thesis by simp
qed

theorem downstream_request_shape_witness:
  \<open>downstream (snd (handleSlackEvents sampleLib ''secret'' ''http://task'' (post mentionRaw))) =
     [\<lparr>reqMethod = ''POST'', reqURL = ''http://task'',
       reqHeader = [(''Content-Type'', ''application/json''), (''Cookie'', ''obot_access_token=secret'')],
       reqBody = ''{"THREAD_ID":"100.1","CHANNEL_ID":"C1","USER_ID":"U1","QUERY":"hi"}''\<rparr>]\<close>
proof -
  have qual: "Type mentionPayload = ''event_callback'' \<and>
         (EventType (Event mentionPayload) = ''app_mention'' \<or>
          (ChannelType (Event mentionPayload) = ''im'' \<and> EventType (Event mentionPayload) = ''message''
           \<and> BotID (Event mentionPayload) = []))"
    by (simp add: mentionPayload_def mentionEvent_def)
  have mem: \<open>\<lparr>reqMethod = ''POST'', reqURL = ''http://task'',
       reqHeader = [(''Content-Type'', ''application/json''), (''Cookie'', ''obot_access_token=secret'')],
       reqBody = ''{"THREAD_ID":"100.1","CHANNEL_ID":"C1","USER_ID":"U1","QUERY":"hi"}''\<rparr>
     \<in> set (downstream (snd (handleSlackEvents sampleLib ''secret'' ''http://task'' (post mentionRaw))))\<close>
    by (simp add: sample_downstream_mention)
  show ?thesis
    by (rule conjunct1 [OF downstream_request_shape [OF post_simps sample_unmarshal_mention qual mem]])
qed

text \<open>
  C5. For every parsed envelope that is neither of type \<open>url_verification\<close> nor a
  qualifying \<open>event_callback\<close>, the handler makes no downstream call and responds with
  status 200 and an empty body. The sample is a \<open>message\<close> in an \<open>im\<close> channel with a
  non-empty \<open>bot_id\<close>.
\<close>

theorem other_envelopes_ignored:
  assumes "Method r = ''POST''" and "Body r = Inr raw" and "json_Unmarshal lib raw = Inr p"
    and "Type p \<noteq> ''url_verification''"
    and "\<not> (Type p = ''event_callback'' \<and>
            (EventType (Event p) = ''app_mention'' \<or>
             (ChannelType (Event p) = ''im'' \<and> EventType (Event p) = ''message'' \<and> BotID (Event p) = [])))"
  shows "statusCode (fst (handleSlackEvents lib accessToken taskAPI r)) = 200
       \<and> written (fst (handleSlackEvents lib accessToken taskAPI r)) = []
       \<and> downstream (snd (handleSlackEvents lib accessToken taskAPI r)) = []"
proof -
  have "\<not> isMessageEvent p"
    using assms(5) unfolding isMessageEvent_def .
  then show ?thesis
    using assms(4) by (simp add: handle_parsed [OF assms(1-3)])
qed

theorem other_envelopes_ignored_witness:
  "statusCode (fst (handleSlackEvents sampleLib ''secret'' ''http://task'' (post botMessageRaw))) = 200
   \<and> written (fst (handleSlackEvents sampleLib ''secret'' ''http://task'' (post botMessageRaw))) = []
   \<and> downstream (snd (handleSlackEvents sampleLib ''secret'' ''http://task'' (post botMessageRaw))) = []"
proof -
  have ty: "Type botMessagePayload \<noteq> ''url_verification''"
    by (simp add: botMessagePayload_def)
  have nq: "\<not> (Type botMessagePayload = ''event_callback'' \<and>
            (EventType (Event botMessagePayload) = ''app_mention'' \<or>
             (ChannelType (Event botMessagePayload) = ''im'' \<and> EventType (Event botMessagePayload) = ''message''
              \<and> BotID (Event botMessagePayload) = [])))"
    by (simp add: botMessagePayload_def)
  show ?thesis
    using other_envelopes_ignored [OF post_simps sample_unmarshal_botMessage ty nq, of "''secret''" "''http://task''"]
    by simp
qed

text \<open>
  C6. For every qualifying event, when \<open>json.Marshal\<close> or \<open>http.NewRequest\<close> fails, or
  \<open>client.Do\<close> fails on the request built, or reading the body of its response fails, the
  handler responds with status 500, and the run has made at most one downstream call
  (there is no retry).
\<close>

theorem downstream_failure_500:
  assumes "Method r = ''POST''" and "Body r = Inr raw" and "json_Unmarshal lib raw = Inr p"
    and "Type p = ''event_callback'' \<and>
         (EventType (Event p) = ''app_mention'' \<or>
          (ChannelType (Event p) = ''im'' \<and> EventType (Event p) = ''message'' \<and> BotID (Event p) = []))"
    and "(\<exists>err. json_Marshal lib (apiBody (Event p)) = Inl err)
       \<or> (\<exists>err. http_NewRequest_err lib ''POST'' taskAPI = Some err)
       \<or> (\<exists>jsonBody err. json_Marshal lib (apiBody (Event p)) = Inr jsonBody \<and>
            client_Do lib \<lparr>reqMethod = ''POST'', reqURL = taskAPI,
              reqHeader = [(''Content-Type'', ''application/json''), (''Cookie'', ''obot_access_token='' @ accessToken)],
              reqBody = jsonBody\<rparr> = Inl err)
       \<or> (\<exists>jsonBody resp err. json_Marshal lib (apiBody (Event p)) = Inr jsonBody \<and>
            client_Do lib \<lparr>reqMethod = ''POST'', reqURL = taskAPI,
              reqHeader = [(''Content-Type'', ''application/json''), (''Cookie'', ''obot_access_token='' @ accessToken)],
              reqBody = jsonBody\<rparr> = Inr resp \<and> respBody resp = Inl err)"
  shows "statusCode (fst (handleSlackEvents lib accessToken taskAPI r)) = 500
       \<and> length (downstream (snd (handleSlackEvents lib accessToken taskAPI r))) \<le> 1"
proof -
  have q: "isMessageEvent p"
    using assms(4) unfolding isMessageEvent_def .
  then have nv: "Type p \<noteq> ''url_verification''"
    by (rule isMessageEvent_not_verification)
  let ?tr = "[Log (''Raw event data: '' @ raw)]"
  have "\<exists>res. forward lib accessToken taskAPI (Event p) newResponseWriter ?tr = Inl res
           \<and> statusCode (fst res) = 500"
  proof (cases "json_Marshal lib (apiBody (Event p))")
    case (Inl err)
    then show ?thesis by (simp add: forward_marshal_error)
  next
    case (Inr jb)
    show ?thesis
    proof (cases "http_NewRequest_err lib ''POST'' taskAPI")
      case (Some err)
      then show ?thesis by (simp add: forward_newrequest_error [OF Inr])
    next
      case None
      with Inr assms(5) show ?thesis
        by (auto simp add: forward_built [OF Inr None refl])
    qed
  qed
  then obtain res where
    f: "forward lib accessToken taskAPI (Event p) newResponseWriter ?tr = Inl res"
    and st: "statusCode (fst res) = 500"
    by blast
  have "statusCode (fst (handleSlackEvents lib accessToken taskAPI r)) = 500"
    using nv q st f by (simp add: handle_parsed [OF assms(1-3)])
  then show ?thesis
    using message_at_most_one_call [OF assms(1-3)] by simp
qed

theorem downstream_failure_500_witness:
  "statusCode (fst (handleSlackEvents refusingLib ''secret'' ''http://task'' (post mentionRaw))) = 500
   \<and> length (downstream (snd (handleSlackEvents refusingLib ''secret'' ''http://task'' (post mentionRaw)))) \<le> 1"
proof -
  have qual: "Type mentionPayload = ''event_callback'' \<and>
         (EventType (Event mentionPayload) = ''app_mention'' \<or>
          (ChannelType (Event mentionPayload) = ''im'' \<and> EventType (Event mentionPayload) = ''message''
           \<and> BotID (Event mentionPayload) = []))"
    by (simp add: mentionPayload_def mentionEvent_def)
  have fail: "(\<exists>err. json_Marshal refusingLib (apiBody (Event mentionPayload)) = Inl err)
       \<or> (\<exists>err. http_NewRequest_err refusingLib ''POST'' ''http://task'' = Some err)
       \<or> (\<exists>jsonBody err. json_Marshal refusingLib (apiBody (Event mentionPayload)) = Inr jsonBody \<and>
            client_Do refusingLib \<lparr>reqMethod = ''POST'', reqURL = ''http://task'',
              reqHeader = [(''Content-Type'', ''application/json''), (''Cookie'', ''obot_access_token='' @ ''secret'')],
              reqBody = jsonBody\<rparr> = Inl err)
       \<or> (\<exists>jsonBody resp err. json_Marshal refusingLib (apiBody (Event mentionPayload)) = Inr jsonBody \<and>
            client_Do refusingLib \<lparr>reqMethod = ''POST'', reqURL = ''http://task'',
              reqHeader = [(''Content-Type'', ''application/json''), (''Cookie'', ''obot_access_token='' @ ''secret'')],
              reqBody = jsonBody\<rparr> = Inr resp \<and> respBody resp = Inl err)"
    by (simp add: refusingLib_def sample_marshal)
  show ?thesis
    using downstream_failure_500 [OF post_simps refusing_unmarshal_mention qual fail] .
qed

text \<open>
  C7 (as amended). For every POST request whose body is read without error and is
  rejected by \<open>json.Unmarshal\<close>, the handler responds with status 400 and makes no
  downstream call.
\<close>

theorem malformed_body_rejected:
  assumes "Method r = ''POST''" and "Body r = Inr raw" and "json_Unmarshal lib raw = Inl err"
  shows "statusCode (fst (handleSlackEvents lib accessToken taskAPI r)) = 400
       \<and> downstream (snd (handleSlackEvents lib accessToken taskAPI r)) = []"
  using assms by (simp add: handleSlackEvents_def Let_def)

theorem malformed_body_rejected_witness:
  "statusCode (fst (handleSlackEvents sampleLib ''secret'' ''http://task'' (post ''{''))) = 400
   \<and> downstream (snd (handleSlackEvents sampleLib ''secret'' ''http://task'' (post ''{''))) = []"
  using malformed_body_rejected [OF post_simps sample_unmarshal_malformed, of "''secret''" "''http://task''"]
  by simp

text \<open>
  The claim for every request fails: the method is checked first (line 72), so a GET
  request with the malformed body \<open>{\<close> is answered with status 405, not 400.
\<close>

theorem malformed_body_get_counterexample:
  "json_Unmarshal sampleLib ''{'' = Inl ''unexpected end of JSON input''
   \<and> statusCode (fst (handleSlackEvents sampleLib ''secret'' ''http://task''
        \<lparr>Method = ''GET'', Body = Inr ''{''\<rparr>)) = 405"
  using sample_unmarshal_malformed by (simp add: handleSlackEvents_def Let_def)

text \<open>
  A POST request whose body cannot be read is answered with status 500 before any decoding
  (lines 77-81).
\<close>

lemma unreadable_body_500:
  assumes "Method r = ''POST''" and "Body r = Inl err"
  shows "statusCode (fst (handleSlackEvents lib accessToken taskAPI r)) = 500
       \<and> snd (handleSlackEvents lib accessToken taskAPI r) = []"
  using assms by (simp add: handleSlackEvents_def Let_def)

text \<open>
  C8. A request whose method is not POST is answered with status 405 (Method Not
  Allowed); the handler does nothing else: it writes no log line and makes no downstream
  call.
\<close>

theorem non_post_rejected:
  assumes "Method r \<noteq> ''POST''"
  shows "statusCode (fst (handleSlackEvents lib accessToken taskAPI r)) = 405
       \<and> snd (handleSlackEvents lib accessToken taskAPI r) = []
       \<and> downstream (snd (handleSlackEvents lib accessToken taskAPI r)) = []"
  using assms by (simp add: handleSlackEvents_def Let_def)

theorem non_post_rejected_witness:
  "statusCode (fst (handleSlackEvents sampleLib ''secret'' ''http://task'' \<lparr>Method = ''GET'', Body = Inr mentionRaw\<rparr>)) = 405
   \<and> snd (handleSlackEvents sampleLib ''secret'' ''http://task'' \<lparr>Method = ''GET'', Body = Inr mentionRaw\<rparr>) = []
   \<and> downstream (snd (handleSlackEvents sampleLib ''secret'' ''http://task'' \<lparr>Method = ''GET'', Body = Inr mentionRaw\<rparr>)) = []"
  using non_post_rejected [of "\<lparr>Method = ''GET'', Body = Inr mentionRaw\<rparr>" sampleLib "''secret''" "''http://task''"]
  by simp

text \<open>
  C10 (as amended). For every parsed \<open>event_callback\<close> envelope whose event type is
  \<open>app_mention\<close>, whatever its \<open>bot_id\<close>, the handler makes a downstream call exactly when
  the outbound request could be built (\<open>json.Marshal\<close> returned the body and
  \<open>http.NewRequest\<close> accepted the configured URL). The sample mention has the \<open>bot_id\<close>
  \<open>B2\<close>.
\<close>

theorem app_mention_forwarded:
  assumes "Method r = ''POST''" and "Body r = Inr raw" and "json_Unmarshal lib raw = Inr p"
    and "Type p = ''event_callback''" and "EventType (Event p) = ''app_mention''"
  shows "downstream (snd (handleSlackEvents lib accessToken taskAPI r)) \<noteq> [] \<longleftrightarrow>
     (\<exists>jsonBody. json_Marshal lib (apiBody (Event p)) = Inr jsonBody)
     \<and> http_NewRequest_err lib ''POST'' taskAPI = None"
proof -
  have q: "isMessageEvent p"
    using assms(4,5) by (simp add: isMessageEvent_def)
  have nv: "Type p \<noteq> ''url_verification''"
    using assms(4) by simp
  show ?thesis
    by (simp add: handle_message_downstream [OF assms(1-3) nv q] split: sum.splits option.splits)
qed

theorem app_mention_forwarded_witness:
  "BotID (Event botMentionPayload) = ''B2''
   \<and> downstream (snd (handleSlackEvents sampleLib ''secret'' ''http://task'' (post botMentionRaw))) \<noteq> []"
proof -
  have ty: "Type botMentionPayload = ''event_callback''"
    and ev: "EventType (Event botMentionPayload) = ''app_mention''"
    by (simp_all add: botMentionPayload_def)
  show ?thesis
    using app_mention_forwarded [OF post_simps sample_unmarshal_botMention ty ev, of "''secret''" "''http://task''"]
    by (simp add: sample_marshal sample_newrequest botMentionPayload_def)
qed

text \<open>
  The claim without the condition on the outbound request fails: with the task URL \<open>:\<close>
  the mention with \<open>bot_id\<close> \<open>B2\<close> leads to no downstream call.
\<close>

theorem app_mention_build_counterexample:
  "json_Unmarshal sampleLib botMentionRaw = Inr botMentionPayload
   \<and> Type botMentionPayload = ''event_callback''
   \<and> EventType (Event botMentionPayload) = ''app_mention''
   \<and> BotID (Event botMentionPayload) = ''B2''
   \<and> downstream (snd (handleSlackEvents sampleLib ''secret'' '':'' (post botMentionRaw))) = []"
proof -
  have q: "isMessageEvent botMentionPayload"
    by (simp add: isMessageEvent_def botMentionPayload_def)
  have f: "forward sampleLib ''secret'' '':'' (Event botMentionPayload) newResponseWriter tr =
      Inl (http_Error newResponseWriter ''Failed to create API request'' 500, tr)" for tr
    by (rule forward_newrequest_error [OF sample_marshal]) (simp add: sample_newrequest)
  show ?thesis
    using q by (simp add: handle_parsed [OF post_simps sample_unmarshal_botMention] f sample_unmarshal_botMention)
      (simp add: botMentionPayload_def)
qed

section \<open>Properties of the startup\<close>

text \<open>
  C9 (as amended). The process ends in \<open>log.Fatal\<close> before it has served any traffic if
  and only if \<open>OBOT_ACCESS_TOKEN\<close> is empty or \<open>http.ListenAndServe\<close>, called on the port of
  \<open>PORT\<close> (8088 when that is empty), returns an error before accepting a connection. The
  value of \<open>TASK_API_URL\<close> changes neither how the run ends nor whether it serves.
\<close>

theorem startup_fatal_iff:
  "(fatalBeforeServing (main getenv listenAndServe) \<longleftrightarrow>
      getenv ''OBOT_ACCESS_TOKEN'' = [] \<or>
      (\<exists>err. listenAndServe ('':'' @ (if getenv ''PORT'' \<noteq> [] then getenv ''PORT'' else ''8088'')) = ListenError err))
   \<and> ending (main (getenv(''TASK_API_URL'' := u)) listenAndServe) = ending (main getenv listenAndServe)
   \<and> accepting (main (getenv(''TASK_API_URL'' := u)) listenAndServe) = accepting (main getenv listenAndServe)"
  by (simp add: main_def fatalBeforeServing_def Let_def split: ListenResult.splits)

theorem startup_fatal_iff_witness:
  "fatalBeforeServing (main emptyEnv alwaysServes)
   \<and> \<not> fatalBeforeServing (main sampleEnv alwaysServes)
   \<and> ending (main (sampleEnv(''TASK_API_URL'' := ''http://task'')) alwaysServes) = ending (main sampleEnv alwaysServes)"
  using startup_fatal_iff [of emptyEnv alwaysServes "''http://task''"]
    startup_fatal_iff [of sampleEnv alwaysServes "''http://task''"]
  by (simp add: emptyEnv_def sampleEnv_def alwaysServes_def)

text \<open>
  The claim with the token as the only cause fails: with the token set and the port
  already in use, \<open>ListenAndServe\<close> returns its error at once and line 66 ends the process
  before any request is served.
\<close>

theorem startup_listen_counterexample:
  "sampleEnv ''OBOT_ACCESS_TOKEN'' = ''secret''
   \<and> fatalBeforeServing (main sampleEnv portInUse)
   \<and> ending (main sampleEnv portInUse) = Fatal ''bind: address already in use''"
  by (simp add: sampleEnv_def portInUse_def main_def fatalBeforeServing_def)

end
